theory Spec2Isabelle
  imports Complex_Main "HOL-Library.Sublist"
begin

section \<open>Data model\<close>

text \<open>
  The program is one function, \<^verbatim>\<open>main\<close> of \<^verbatim>\<open>ev_analysis_app.py\<close>. After line 27 the data
  frame \<^verbatim>\<open>df\<close> has the four columns \<^verbatim>\<open>Model Year\<close>, \<^verbatim>\<open>Make\<close>, \<^verbatim>\<open>Electric Range\<close> and
  \<^verbatim>\<open>Expected Price ($1k)\<close>, and \<^verbatim>\<open>dropna\<close> has removed every row with a missing value. A data
  frame is modelled as the list of its rows, in index order; a column (a pandas Series) is
  the list of one field, \<open>map Expected_Price df\<close>.

  Numbers: the model year is an integer; range and price are finite numbers, modelled as
  exact rationals. Comparisons are exact on floating-point numbers too; the rounding of
  each arithmetic operation is not modelled. A value that pandas computes as NaN (or an
  infinity) is \<open>None\<close> of \<open>rat option\<close>.
\<close>

record ev_row =
  Model_Year :: int
  Make :: string
  Electric_Range :: rat
  Expected_Price :: rat

type_synonym dataframe = "ev_row list"

text \<open>
  The sidebar widgets of lines 39 to 44: each run reads their current values, named as
  the variables of the source are.
\<close>

record widgets =
  brand :: string
  model_year :: int
  price_range :: "rat \<times> rat"
  range_miles :: "rat \<times> rat"
  show_outliers :: bool
  advanced_charts :: bool

section \<open>Series operations of pandas\<close>

text \<open>Elementwise comparison of a column with a scalar gives a boolean Series.\<close>

definition series_le :: "int list \<Rightarrow> int \<Rightarrow> bool list" where
  "series_le s v = map (\<lambda>x. x \<le> v) s"

text \<open>\<^verbatim>\<open>Series.between(left, right)\<close>: both ends inclusive by default.\<close>

definition between :: "rat list \<Rightarrow> rat \<Rightarrow> rat \<Rightarrow> bool list" where
  "between s left right = map (\<lambda>x. left \<le> x \<and> x \<le> right) s"

definition series_eq :: "string list \<Rightarrow> string \<Rightarrow> bool list" where
  "series_eq s v = map (\<lambda>x. x = v) s"

text \<open>
  Comparison of a column with a scalar that may be NaN: every comparison with NaN is
  false.
\<close>

definition series_lt :: "rat list \<Rightarrow> rat option \<Rightarrow> bool list" where
  "series_lt s b = map (\<lambda>x. case b of None \<Rightarrow> False | Some y \<Rightarrow> x < y) s"

definition series_gt :: "rat list \<Rightarrow> rat option \<Rightarrow> bool list" where
  "series_gt s b = map (\<lambda>x. case b of None \<Rightarrow> False | Some y \<Rightarrow> x > y) s"

text \<open>The operators \<^verbatim>\<open>&\<close>, \<^verbatim>\<open>|\<close> and \<^verbatim>\<open>~\<close> on boolean Series.\<close>

definition mask_and :: "bool list \<Rightarrow> bool list \<Rightarrow> bool list" where
  "mask_and a b = map2 (\<and>) a b"

definition mask_or :: "bool list \<Rightarrow> bool list \<Rightarrow> bool list" where
  "mask_or a b = map2 (\<or>) a b"

definition mask_not :: "bool list \<Rightarrow> bool list" where
  "mask_not a = map Not a"

text \<open>
  Boolean indexing \<^verbatim>\<open>df[mask]\<close>: the rows whose mask entry is true, in the order of the
  frame. Every mask of the program is computed from the frame it indexes, so both have the
  same index and the same length.
\<close>

definition boolean_index :: "'a list \<Rightarrow> bool list \<Rightarrow> 'a list" where
  "boolean_index df m = map fst (filter snd (zip df m))"

section \<open>The filter of lines 47 to 51\<close>

definition base_filter :: "dataframe \<Rightarrow> widgets \<Rightarrow> dataframe" where
  "base_filter df w =
     (let filtered_df = boolean_index df
            (mask_and
               (mask_and (series_le (map Model_Year df) (model_year w))
                         (between (map Expected_Price df)
                            (fst (price_range w)) (snd (price_range w))))
               (between (map Electric_Range df)
                  (fst (range_miles w)) (snd (range_miles w))))
      in if brand w \<noteq> ''All''
         then boolean_index filtered_df (series_eq (map Make filtered_df) (brand w))
         else filtered_df)"

text \<open>The three-row dataset of the specification's examples.\<close>

definition example_df :: dataframe where
  "example_df =
     [\<lparr>Model_Year = 2020, Make = ''A'', Electric_Range = 100, Expected_Price = 40\<rparr>,
      \<lparr>Model_Year = 2021, Make = ''B'', Electric_Range = 300, Expected_Price = 35\<rparr>,
      \<lparr>Model_Year = 2022, Make = ''A'', Electric_Range = 50, Expected_Price = 90\<rparr>]"

definition example_widgets :: widgets where
  "example_widgets =
     \<lparr>brand = ''All'', model_year = 2022, price_range = (0, 100), range_miles = (0, 300),
      show_outliers = True, advanced_charts = False\<rparr>"

section \<open>Outlier handling, lines 54 to 58\<close>

text \<open>
  \<^verbatim>\<open>Series.quantile(q)\<close> with the default linear interpolation: on the sorted values
  \<open>v\<close> of a Series of length \<open>n\<close>, the position is \<open>h = q * (n - 1)\<close> and the result
  interpolates between \<open>v[floor h]\<close> and its successor (clipped to the last position) with
  weight \<open>h - floor h\<close>. On an empty Series pandas returns NaN and does not raise. The
  program calls it with \<open>q = 0.25\<close> and \<open>q = 0.75\<close> only, for which every position read
  is in range.
\<close>

definition quantile :: "rat list \<Rightarrow> rat \<Rightarrow> rat option" where
  "quantile s q =
     (if s = [] then None
      else let v = sort s;
               h = q * of_nat (length v - 1);
               lo = nat \<lfloor>h\<rfloor>;
               hi = min (lo + 1) (length v - 1)
           in Some (v ! lo + (v ! hi - v ! lo) * (h - of_int \<lfloor>h\<rfloor>)))"

text \<open>Arithmetic on scalars that may be NaN: NaN is absorbing.\<close>

fun fsub :: "rat option \<Rightarrow> rat option \<Rightarrow> rat option" where
  "fsub (Some a) (Some b) = Some (a - b)"
| "fsub _ _ = None"

fun fadd :: "rat option \<Rightarrow> rat option \<Rightarrow> rat option" where
  "fadd (Some a) (Some b) = Some (a + b)"
| "fadd _ _ = None"

fun fmul :: "rat option \<Rightarrow> rat option \<Rightarrow> rat option" where
  "fmul (Some a) (Some b) = Some (a * b)"
| "fmul _ _ = None"

text \<open>
  Lines 55 to 57 and the mask of line 58: true at the rows whose price is below
  \<^verbatim>\<open>Q1 - 1.5 * IQR\<close> or above \<^verbatim>\<open>Q3 + 1.5 * IQR\<close>.
\<close>

definition outlier_mask :: "dataframe \<Rightarrow> bool list" where
  "outlier_mask filtered_df =
     (let Q1 = quantile (map Expected_Price filtered_df) (1 / 4);
          Q3 = quantile (map Expected_Price filtered_df) (3 / 4);
          IQR = fsub Q3 Q1
      in mask_or
           (series_lt (map Expected_Price filtered_df) (fsub Q1 (fmul (Some (3 / 2)) IQR)))
           (series_gt (map Expected_Price filtered_df) (fadd Q3 (fmul (Some (3 / 2)) IQR))))"

definition outlier_handling :: "dataframe \<Rightarrow> widgets \<Rightarrow> dataframe" where
  "outlier_handling filtered_df w =
     (if \<not> show_outliers w
      then boolean_index filtered_df (mask_not (outlier_mask filtered_df))
      else filtered_df)"

text \<open>Lines 47 to 58 together: the frame that every chart and export is made from.\<close>

definition filter_data :: "dataframe \<Rightarrow> widgets \<Rightarrow> dataframe" where
  "filter_data df w = outlier_handling (base_filter df w) w"

text \<open>
  Five rows that differ in price only (10, 21, 21, 30, 50), with the outliers hidden, and
  three rows that differ in range only (1, 2, 2).
\<close>

definition priced :: "rat \<Rightarrow> ev_row" where
  "priced p = \<lparr>Model_Year = 2020, Make = ''A'', Electric_Range = 100, Expected_Price = p\<rparr>"

definition ranged :: "rat \<Rightarrow> ev_row" where
  "ranged m = \<lparr>Model_Year = 2020, Make = ''A'', Electric_Range = m, Expected_Price = 40\<rparr>"

definition hide_outliers :: widgets where
  "hide_outliers = example_widgets\<lparr>show_outliers := False\<rparr>"

text \<open>The widest criteria for the three-row example: the minimum and maximum of each column.\<close>

definition widest_widgets :: widgets where
  "widest_widgets =
     \<lparr>brand = ''All'', model_year = 2022, price_range = (35, 90), range_miles = (50, 300),
      show_outliers = True, advanced_charts = False\<rparr>"

section \<open>The derived column, line 64\<close>

definition series_mul :: "rat list \<Rightarrow> rat \<Rightarrow> rat list" where
  "series_mul s k = map (\<lambda>x. x * k) s"

text \<open>\<^verbatim>\<open>Series.replace(a, b)\<close> returns a new Series; the column of the frame is not changed.\<close>

definition series_replace :: "rat list \<Rightarrow> rat \<Rightarrow> rat \<Rightarrow> rat list" where
  "series_replace s a b = map (\<lambda>x. if x = a then b else x) s"

text \<open>
  Elementwise division. A division by zero does not raise in pandas: it gives an infinity
  or NaN, here \<open>None\<close>.
\<close>

definition series_div :: "rat list \<Rightarrow> rat list \<Rightarrow> rat option list" where
  "series_div a b = map2 (\<lambda>x y. if y = 0 then None else Some (x / y)) a b"

record view_row = ev_row +
  Price_per_Mile :: "rat option"

text \<open>\<^verbatim>\<open>df['Price per Mile'] = col\<close>: each row gets one more field.\<close>

definition assign_column :: "dataframe \<Rightarrow> rat option list \<Rightarrow> view_row list" where
  "assign_column df col = map2 (\<lambda>r p. ev_row.extend r (view_row.fields p)) df col"

definition add_price_per_mile :: "dataframe \<Rightarrow> view_row list" where
  "add_price_per_mile filtered_df =
     assign_column filtered_df
       (series_div (series_mul (map Expected_Price filtered_df) 1000)
                   (series_replace (map Electric_Range filtered_df) 0 1))"

section \<open>Key metrics, lines 33 to 35\<close>






section \<open>Export and page output, lines 60 to 104\<close>

text \<open>
  \<^verbatim>\<open>to_csv(index=False)\<close>: a header row and one row of cells per record, without the index.
  The text of a number is not modelled; a cell holds its value.
\<close>

datatype cell = Int_cell int | Str_cell string | Num_cell "rat option"

definition to_csv :: "view_row list \<Rightarrow> string list \<times> cell list list" where
  "to_csv view =
     ([''Model Year'', ''Make'', ''Electric Range'', ''Expected Price ($1k)'',
       ''Price per Mile''],
      map (\<lambda>r. [Int_cell (Model_Year r), Str_cell (Make r),
                 Num_cell (Some (Electric_Range r)), Num_cell (Some (Expected_Price r)),
                 Num_cell (Price_per_Mile r)]) view)"












section \<open>Boolean indexing is a filter\<close>

lemma boolean_index_map: "boolean_index df (map P df) = filter P df"
  by (induction df) (simp_all add: boolean_index_def)

lemma mask_and_map: "mask_and (map P xs) (map Q xs) = map (\<lambda>x. P x \<and> Q x) xs"
  by (induction xs) (simp_all add: mask_and_def)


lemma mask_not_map: "mask_not (map P xs) = map (\<lambda>x. \<not> P x) xs"
  by (simp add: mask_not_def)

lemma base_mask:
  "mask_and
     (mask_and (series_le (map Model_Year df) y) (between (map Expected_Price df) pl ph))
     (between (map Electric_Range df) rl rh)
   = map (\<lambda>r. (Model_Year r \<le> y \<and> pl \<le> Expected_Price r \<and> Expected_Price r \<le> ph)
              \<and> rl \<le> Electric_Range r \<and> Electric_Range r \<le> rh) df"
  by (simp add: series_le_def between_def mask_and_map comp_def)

lemma brand_mask: "series_eq (map Make df) b = map (\<lambda>r. Make r = b) df"
  by (simp add: series_eq_def comp_def)

lemma base_filter_filter:
  "base_filter df w =
     filter (\<lambda>r. Model_Year r \<le> model_year w
               \<and> fst (price_range w) \<le> Expected_Price r
               \<and> Expected_Price r \<le> snd (price_range w)
               \<and> fst (range_miles w) \<le> Electric_Range r
               \<and> Electric_Range r \<le> snd (range_miles w)
               \<and> (brand w = ''All'' \<or> Make r = brand w)) df"
proof (cases "brand w = ''All''")
  case True
  then show ?thesis
    by (simp add: base_filter_def base_mask boolean_index_map conj_ac)
next
  case False
  then show ?thesis
    by (simp add: base_filter_def Let_def base_mask brand_mask boolean_index_map conj_ac)
qed

section \<open>The outlier mask\<close>



text \<open>
  For \<open>0 \<le> q \<le> 1\<close>, and so for the two calls of the program, both positions that
  \<open>quantile\<close> reads are inside the sorted Series.
\<close>

lemma quantile_positions_in_range:
  assumes "s \<noteq> []" and "0 \<le> q" and "q \<le> 1"
  shows "nat \<lfloor>q * rat_of_nat (length (sort s) - 1)\<rfloor> < length (sort s)
       \<and> min (nat \<lfloor>q * rat_of_nat (length (sort s) - 1)\<rfloor> + 1) (length (sort s) - 1)
           < length (sort s)"
proof -
  let ?n = "length (sort s)"
  from assms(1) have pos: "0 < ?n" by simp
  have "q * rat_of_nat (?n - 1) \<le> 1 * rat_of_nat (?n - 1)"
    using assms(3) by (intro mult_right_mono) simp_all
  then have "\<lfloor>q * rat_of_nat (?n - 1)\<rfloor> \<le> int (?n - 1)"
    by (simp add: floor_le_iff)
  then have "nat \<lfloor>q * rat_of_nat (?n - 1)\<rfloor> \<le> ?n - 1"
    by linarith
  with pos show ?thesis by linarith
qed


lemma length_outlier_mask: "length (outlier_mask v) = length v"
  by (simp add: outlier_mask_def Let_def series_lt_def series_gt_def mask_or_def)

lemma boolean_index_subseq: "subseq (boolean_index df m) df"
proof (induction df arbitrary: m)
  case Nil
  then show ?case by (simp add: boolean_index_def)
next
  case (Cons r df)
  show ?case
  proof (cases m)
    case Nil
    then show ?thesis by (simp add: boolean_index_def)
  next
    case (Cons b bs)
    with Cons.IH [of bs] show ?thesis
      by (cases b) (auto simp add: boolean_index_def)
  qed
qed

lemma boolean_index_all:
  "length m = length df \<Longrightarrow> boolean_index df (mask_not m) = df \<longleftrightarrow> m = replicate (length df) False"
proof (induction df arbitrary: m)
  case Nil
  then show ?case by (simp add: boolean_index_def mask_not_def)
next
  case (Cons r df)
  then obtain b bs where m: "m = b # bs" and len: "length bs = length df"
    by (cases m) auto
  have short: "boolean_index df (mask_not bs) \<noteq> r # df"
  proof
    assume "boolean_index df (mask_not bs) = r # df"
    then have "subseq (r # df) df"
      using boolean_index_subseq [of df "mask_not bs"] by simp
    then have "length (r # df) \<le> length df"
      by (rule list_emb_length)
    then show False by simp
  qed
  show ?case
  proof (cases b)
    case True
    with m short show ?thesis
      by (simp add: boolean_index_def mask_not_def)
  next
    case False
    with m Cons.IH [OF len] show ?thesis
      by (simp add: boolean_index_def mask_not_def)
  qed
qed

lemma outlier_handling_subseq: "subseq (outlier_handling v w) v"
  by (simp add: outlier_handling_def boolean_index_subseq)

lemma base_filter_subseq: "subseq (base_filter df w) df"
  by (simp add: base_filter_filter)

section \<open>The derived column and the metrics\<close>

lemma add_price_per_mile_map:
  "add_price_per_mile v =
     map (\<lambda>r. ev_row.extend r (view_row.fields
            (Some (Expected_Price r * 1000
                   / (if Electric_Range r = 0 then 1 else Electric_Range r))))) v"
  by (induction v)
    (simp_all add: add_price_per_mile_def assign_column_def series_div_def series_mul_def
      series_replace_def)

lemma source_fields_extend:
  "Model_Year (ev_row.extend r (view_row.fields p)) = Model_Year r"
  "Make (ev_row.extend r (view_row.fields p)) = Make r"
  "Electric_Range (ev_row.extend r (view_row.fields p)) = Electric_Range r"
  "Expected_Price (ev_row.extend r (view_row.fields p)) = Expected_Price r"
  "Price_per_Mile (ev_row.extend r (view_row.fields p)) = p"
  "ev_row.truncate (ev_row.extend r (view_row.fields p)) = r"
  by (simp_all add: ev_row.defs view_row.defs)



section \<open>Claims\<close>

text \<open>
  C1. For every dataset and every filter criteria, the rows that survive the base filter
  of lines 47 to 51 are exactly the rows of the dataset (in order, with their
  multiplicity) whose model year is at most the chosen year, whose price lies in the
  closed price interval, whose range lies in the closed range interval, and whose make is
  the chosen brand unless the brand is "All". On the three-row example with brand "A" and
  wide bounds, the rows of 2020 and 2022 survive and no other.
\<close>

theorem C1_base_filter_predicate:
  "base_filter df w =
     filter (\<lambda>r. Model_Year r \<le> model_year w
               \<and> fst (price_range w) \<le> Expected_Price r
               \<and> Expected_Price r \<le> snd (price_range w)
               \<and> fst (range_miles w) \<le> Electric_Range r
               \<and> Electric_Range r \<le> snd (range_miles w)
               \<and> (brand w = ''All'' \<or> Make r = brand w)) df
   \<and> base_filter example_df (example_widgets\<lparr>brand := ''A''\<rparr>) =
       [\<lparr>Model_Year = 2020, Make = ''A'', Electric_Range = 100, Expected_Price = 40\<rparr>,
        \<lparr>Model_Year = 2022, Make = ''A'', Electric_Range = 50, Expected_Price = 90\<rparr>]"
proof
  show "base_filter df w =
     filter (\<lambda>r. Model_Year r \<le> model_year w
               \<and> fst (price_range w) \<le> Expected_Price r
               \<and> Expected_Price r \<le> snd (price_range w)
               \<and> fst (range_miles w) \<le> Electric_Range r
               \<and> Electric_Range r \<le> snd (range_miles w)
               \<and> (brand w = ''All'' \<or> Make r = brand w)) df"
    by (rule base_filter_filter)
  show "base_filter example_df (example_widgets\<lparr>brand := ''A''\<rparr>) =
       [\<lparr>Model_Year = 2020, Make = ''A'', Electric_Range = 100, Expected_Price = 40\<rparr>,
        \<lparr>Model_Year = 2022, Make = ''A'', Electric_Range = 50, Expected_Price = 90\<rparr>]"
    by (simp add: base_filter_filter example_df_def example_widgets_def)
qed



text \<open>
  C5, as the claim states it, fails: on the prices 10, 21, 21, 30, 50 the first
  application removes 50 only (the bounds are 7.5 and 43.5), and the second application,
  whose bounds are recomputed from the four remaining prices (10.75 and 30.75), removes 10
  as well.
\<close>

theorem C5_not_idempotent:
  "outlier_handling (map priced [10, 21, 21, 30, 50]) hide_outliers = map priced [10, 21, 21, 30]
   \<and> outlier_handling (outlier_handling (map priced [10, 21, 21, 30, 50]) hide_outliers)
        hide_outliers = map priced [21, 21, 30]"
  by code_simp

text \<open>
  C5, amended. Applying the outlier step a second time never adds or reorders rows: its
  result is a subsequence of the first result. It changes nothing exactly when the
  outliers are shown or no row of the first result is flagged by the mask recomputed from
  the first result's own quartiles.
\<close>

theorem C5_reapplication:
  "subseq (outlier_handling (outlier_handling v w) w) (outlier_handling v w)
   \<and> (outlier_handling (outlier_handling v w) w = outlier_handling v w)
       = (show_outliers w
          \<or> outlier_mask (outlier_handling v w)
              = replicate (length (outlier_handling v w)) False)"
proof
  show "subseq (outlier_handling (outlier_handling v w) w) (outlier_handling v w)"
    by (rule outlier_handling_subseq)
  show "(outlier_handling (outlier_handling v w) w = outlier_handling v w)
       = (show_outliers w
          \<or> outlier_mask (outlier_handling v w)
              = replicate (length (outlier_handling v w)) False)"
  proof (cases "show_outliers w")
    case True
    then show ?thesis by (simp add: outlier_handling_def)
  next
    case False
    have "outlier_handling (outlier_handling v w) w
            = boolean_index (outlier_handling v w) (mask_not (outlier_mask (outlier_handling v w)))"
      using False by (simp add: outlier_handling_def)
    with False boolean_index_all [OF length_outlier_mask, of "outlier_handling v w"]
    show ?thesis by simp
  qed
qed

text \<open>
  C6. On an empty frame the quantile is NaN, not an error; every comparison of the mask is
  then over no row at all, and the outlier step returns the empty frame, whatever the
  state of the checkbox.
\<close>

theorem C6_empty_frame:
  "quantile [] q = None \<and> outlier_handling [] w = []"
  by (simp add: quantile_def outlier_handling_def boolean_index_def)

text \<open>
  C9. The rows of the filtered frame (base filter, then the outlier step when it runs)
  are rows of the dataset in their original relative order: the filtered frame is a
  subsequence of the dataset.
\<close>

theorem C9_stable_filter: "subseq (filter_data df w) df"
proof -
  have "subseq (filter_data df w) (base_filter df w)"
    by (simp add: filter_data_def outlier_handling_subseq)
  then show ?thesis
    using base_filter_subseq subseq_order.order_trans by blast
qed



text \<open>
  C4. With the widest criteria (the year ceiling at the largest model year of the
  dataset, the price and range intervals from the minimum to the maximum of their column,
  brand "All", outliers shown) the filtered frame has as many rows as the dataset.
\<close>

theorem C4_widest_criteria:
  assumes "brand w = ''All''"
    and "show_outliers w"
    and "model_year w = Max (set (map Model_Year df))"
    and "price_range w = (Min (set (map Expected_Price df)), Max (set (map Expected_Price df)))"
    and "range_miles w = (Min (set (map Electric_Range df)), Max (set (map Electric_Range df)))"
  shows "length (filter_data df w) = length df"
proof -
  have "filter_data df w = base_filter df w"
    using assms(2) by (simp add: filter_data_def outlier_handling_def)
  also have "\<dots> = df"
    unfolding base_filter_filter using assms(1,3,4,5)
    by (intro filter_True) simp
  finally show ?thesis by simp
qed

theorem C4_widest_criteria_witness:
  "length (filter_data example_df widest_widgets) = 3"
  using C4_widest_criteria [of widest_widgets example_df]
  by (simp add: widest_widgets_def example_df_def)







text \<open>
  C10. Adding the derived column changes no source field: each row of the view, cut back
  to its four source fields, is the row it was made from, and the first four cells of each
  CSV row are those source values. A row with range 0 keeps range 0 in the view and in the
  CSV; the 1 that replaces it is used inside the division only.
\<close>

theorem C10_source_fields_kept:
  "map ev_row.truncate (add_price_per_mile v) = v
   \<and> map Model_Year (add_price_per_mile v) = map Model_Year v
   \<and> map Make (add_price_per_mile v) = map Make v
   \<and> map Electric_Range (add_price_per_mile v) = map Electric_Range v
   \<and> map Expected_Price (add_price_per_mile v) = map Expected_Price v
   \<and> map (take 4) (snd (to_csv (add_price_per_mile v))) =
       map (\<lambda>r. [Int_cell (Model_Year r), Str_cell (Make r),
                  Num_cell (Some (Electric_Range r)), Num_cell (Some (Expected_Price r))]) v
   \<and> map Electric_Range (add_price_per_mile [ranged 0]) = [0]
   \<and> snd (to_csv (add_price_per_mile [ranged 0])) =
       [[Int_cell 2020, Str_cell ''A'', Num_cell (Some 0), Num_cell (Some 40),
         Num_cell (Some 40000)]]"
  by (simp add: add_price_per_mile_map source_fields_extend comp_def to_csv_def ranged_def)


end
